theory Spec2Isabelle
  imports Complex_Main "HOL-Library.Char_ord" "HOL-Library.List_Lexorder"
    "HOL-Library.Product_Lexorder" "HOL-Library.Sublist" "HOL-Library.Multiset"
begin

section \<open>Strings\<close>

text \<open>
  File names and column names are Python \<open>str\<close> values. They are modelled as
  \<^typ>\<open>string\<close>, one \<^typ>\<open>char\<close> per code point below 256 (Latin-1); the roster
  names, the column names and every character the regular expressions name are ASCII.
\<close>

definition is_digit :: "char \<Rightarrow> bool" where
  \<comment> \<open>\<open>\d\<close>: below code point 256 the decimal digits are \<open>0\<close>-\<open>9\<close>.\<close>
  "is_digit c = (c \<in> set ''0123456789'')"

definition is_nonzero_digit :: "char \<Rightarrow> bool" where
  \<comment> \<open>\<open>[1-9]\<close>\<close>
  "is_nonzero_digit c = (c \<in> set ''123456789'')"

definition is_space :: "char \<Rightarrow> bool" where
  \<comment> \<open>\<open>\s\<close> on \<open>str\<close>: the code points below 256 for which \<open>str.isspace\<close> holds.\<close>
  "is_space c = ((of_char c :: nat) \<in> set [9, 10, 11, 12, 13, 28, 29, 30, 31, 32, 133, 160])"

definition digit_val :: "char \<Rightarrow> nat" where
  "digit_val c = of_char c - 48"

definition lower_char :: "char \<Rightarrow> char" where
  \<comment> \<open>\<open>str.lower\<close> on one code point below 256: \<open>A\<close>-\<open>Z\<close> and the Latin-1 capitals
      (192-222 but the multiplication sign 215) move up by 32.\<close>
  "lower_char c =
     (let n = (of_char c :: nat)
      in if (65 \<le> n \<and> n \<le> 90) \<or> (192 \<le> n \<and> n \<le> 222 \<and> n \<noteq> 215)
         then char_of (n + 32) else c)"

definition lower :: "string \<Rightarrow> string" where
  "lower s = map lower_char s"

fun contains :: "string \<Rightarrow> string \<Rightarrow> bool" where
  \<comment> \<open>\<open>contains s sub\<close> is Python's \<open>sub in s\<close>.\<close>
  "contains [] sub = (sub = [])"
| "contains (c # cs) sub = (prefix sub (c # cs) \<or> contains cs sub)"

fun str_nat :: "nat \<Rightarrow> string" where
  \<comment> \<open>The decimal rendering of a non-negative integer inside an f-string.\<close>
  "str_nat n =
     (if n < 10 then [char_of (48 + n)]
      else str_nat (n div 10) @ [char_of (48 + n mod 10)])"

declare str_nat.simps [simp del]

section \<open>Errors\<close>

datatype error =
    ValueError
  | KeyError string
  | AttributeError
  | UnboundLocalError
  | OperationalError
  | ReadError
  | FileNotFoundError

section \<open>Dates and \<open>datetime.strptime\<close>\<close>

record date =
  year :: nat
  month :: nat
  day :: nat

definition is_leap :: "nat \<Rightarrow> bool" where
  "is_leap y = (y mod 4 = 0 \<and> (y mod 100 \<noteq> 0 \<or> y mod 400 = 0))"

definition days_in_month :: "nat \<Rightarrow> nat \<Rightarrow> nat" where
  "days_in_month y m =
     (if m = 2 then (if is_leap y then 29 else 28)
      else if m \<in> set [4, 6, 9, 11] then 30 else 31)"

definition valid_date :: "date \<Rightarrow> bool" where
  \<comment> \<open>What the \<open>datetime.date\<close> constructor checks before it raises ValueError.\<close>
  "valid_date dt =
     (1 \<le> year dt \<and> year dt \<le> 9999 \<and> 1 \<le> month dt \<and> month dt \<le> 12 \<and>
      1 \<le> day dt \<and> day dt \<le> days_in_month (year dt) (month dt))"

text \<open>
  A format is a list of directives and literal characters. Each directive stands for the
  group \<open>_strptime.TimeRE\<close> gives it:
  \<^item> \<open>%d\<close>: \<open>3[0-1]|[1-2]\d|0[1-9]|[1-9]| [1-9]\<close>
  \<^item> \<open>%m\<close>: \<open>1[0-2]|0[1-9]|[1-9]\<close>
  \<^item> \<open>%Y\<close>: \<open>\d\d\d\d\<close>

  \<open>alts\<close> lists what a group can consume at the head of a string, in the order the
  backtracking matcher tries the alternatives: the value read and the rest.
\<close>

datatype item = Dir_d | Dir_m | Dir_Y | Lit char

definition d_alts :: "string \<Rightarrow> (nat \<times> string) list" where
  "d_alts s =
     (case s of
        a # b # r \<Rightarrow>
          (if a = CHR ''3'' \<and> b \<in> set ''01'' then [(10 * digit_val a + digit_val b, r)] else []) @
          (if a \<in> set ''12'' \<and> is_digit b then [(10 * digit_val a + digit_val b, r)] else []) @
          (if a = CHR ''0'' \<and> is_nonzero_digit b then [(digit_val b, r)] else [])
      | _ \<Rightarrow> []) @
     (case s of a # r \<Rightarrow> if is_nonzero_digit a then [(digit_val a, r)] else [] | _ \<Rightarrow> []) @
     (case s of
        a # b # r \<Rightarrow> if a = CHR '' '' \<and> is_nonzero_digit b then [(digit_val b, r)] else []
      | _ \<Rightarrow> [])"

definition m_alts :: "string \<Rightarrow> (nat \<times> string) list" where
  "m_alts s =
     (case s of
        a # b # r \<Rightarrow>
          (if a = CHR ''1'' \<and> b \<in> set ''012'' then [(10 * digit_val a + digit_val b, r)] else []) @
          (if a = CHR ''0'' \<and> is_nonzero_digit b then [(digit_val b, r)] else [])
      | _ \<Rightarrow> []) @
     (case s of a # r \<Rightarrow> if is_nonzero_digit a then [(digit_val a, r)] else [] | _ \<Rightarrow> [])"

definition Y_alts :: "string \<Rightarrow> (nat \<times> string) list" where
  "Y_alts s =
     (case s of
        a # b # c # d # r \<Rightarrow>
          if is_digit a \<and> is_digit b \<and> is_digit c \<and> is_digit d
          then [(1000 * digit_val a + 100 * digit_val b + 10 * digit_val c + digit_val d, r)]
          else []
      | _ \<Rightarrow> [])"

fun matches :: "item list \<Rightarrow> string \<Rightarrow> date \<Rightarrow> (date \<times> string) list" where
  \<comment> \<open>Every way the format's regular expression matches a prefix of the string, in the
      order the backtracking matcher finds them: the fields read, and the rest.\<close>
  "matches [] s dt = [(dt, s)]"
| "matches (Lit c # fmt) s dt =
     (case s of [] \<Rightarrow> [] | x # r \<Rightarrow> if x = c then matches fmt r dt else [])"
| "matches (Dir_d # fmt) s dt =
     concat (map (\<lambda>(v, r). matches fmt r (dt\<lparr>day := v\<rparr>)) (d_alts s))"
| "matches (Dir_m # fmt) s dt =
     concat (map (\<lambda>(v, r). matches fmt r (dt\<lparr>month := v\<rparr>)) (m_alts s))"
| "matches (Dir_Y # fmt) s dt =
     concat (map (\<lambda>(v, r). matches fmt r (dt\<lparr>year := v\<rparr>)) (Y_alts s))"

definition strptime :: "string \<Rightarrow> item list \<Rightarrow> error + date" where
  \<comment> \<open>\<open>datetime.strptime(data_string, format)\<close>: \<open>re.match\<close> takes the first match;
      no match, unconverted data after it, or a date the calendar does not have raise
      ValueError. Fields the format does not name start at 1900-01-01.\<close>
  "strptime s fmt =
     (case matches fmt s \<lparr>year = 1900, month = 1, day = 1\<rparr> of
        [] \<Rightarrow> Inl ValueError
      | (dt, rest) # _ \<Rightarrow>
          if rest \<noteq> [] then Inl ValueError
          else if valid_date dt then Inr dt
          else Inl ValueError)"

definition fmt_dmy :: "item list" where
  \<comment> \<open>\<open>'%d-%m-%Y'\<close>\<close>
  "fmt_dmy = [Dir_d, Lit CHR ''-'', Dir_m, Lit CHR ''-'', Dir_Y]"

definition fmt_mdy :: "item list" where
  \<comment> \<open>\<open>'%m-%d-%Y'\<close>\<close>
  "fmt_mdy = [Dir_m, Lit CHR ''-'', Dir_d, Lit CHR ''-'', Dir_Y]"

definition fmt_ymd :: "item list" where
  \<comment> \<open>\<open>'%Y-%m-%d'\<close>\<close>
  "fmt_ymd = [Dir_Y, Lit CHR ''-'', Dir_m, Lit CHR ''-'', Dir_d]"

definition fmt_compact :: "item list" where
  \<comment> \<open>\<open>'%Y%m%d'\<close>\<close>
  "fmt_compact = [Dir_Y, Dir_m, Dir_d]"

definition formats :: "item list list" where
  \<comment> \<open>\<open>('%d-%m-%Y', '%m-%d-%Y', '%Y-%m-%d', '%Y%m%d')\<close>\<close>
  "formats = [fmt_dmy, fmt_mdy, fmt_ymd, fmt_compact]"

definition format_date :: "date \<Rightarrow> string" where
  \<comment> \<open>\<open>f"{dt.month}/{dt.day}/{dt.year}"\<close>\<close>
  "format_date dt = str_nat (month dt) @ ''/'' @ str_nat (day dt) @ ''/'' @ str_nat (year dt)"

fun standardize :: "string \<Rightarrow> item list list \<Rightarrow> error + string option" where
  \<comment> \<open>The loop over the formats, shared by both files: the first format that parses with
      a day of 28 or more gives the date; ValueError moves on to the next format, any
      other exception would leave the loop.\<close>
  "standardize s [] = Inr None"
| "standardize s (fmt # fmts) =
     (case strptime s fmt of
        Inr dt \<Rightarrow> if 28 \<le> day dt then Inr (Some (format_date dt)) else standardize s fmts
      | Inl ValueError \<Rightarrow> standardize s fmts
      | Inl e \<Rightarrow> Inl e)"


section \<open>The date token of a file name\<close>

text \<open>
  \<open>re.search(r'(\d{8}|\d{2,4}[-._/+\s]\d{2}[-._/+\s]\d{2,4})', filename)\<close>: the leftmost
  position where one alternative matches, the first alternative before the second, each
  counted repetition greedy.
\<close>

definition is_sep :: "char \<Rightarrow> bool" where
  \<comment> \<open>\<open>[-._/+\s]\<close>\<close>
  "is_sep c = (c \<in> set ''-._/+'' \<or> is_space c)"

definition digits_at :: "nat \<Rightarrow> string \<Rightarrow> bool" where
  \<comment> \<open>the string starts with \<open>n\<close> digits\<close>
  "digits_at n s = (n \<le> length s \<and> list_all is_digit (take n s))"

definition match_tail :: "string \<Rightarrow> string option" where
  \<comment> \<open>\<open>[-._/+\s]\d{2}[-._/+\s]\d{2,4}\<close> at the head of the string\<close>
  "match_tail s =
     (case s of
        c1 # a # b # c2 # r \<Rightarrow>
          if is_sep c1 \<and> is_digit a \<and> is_digit b \<and> is_sep c2 \<and> digits_at 2 r
          then Some (c1 # a # b # c2 # takeWhile is_digit (take 4 r))
          else None
      | _ \<Rightarrow> None)"

fun match_delimited :: "nat list \<Rightarrow> string \<Rightarrow> string option" where
  \<comment> \<open>\<open>\d{2,4}\<close> tries 4, 3, then 2 digits; the first count the tail matches after wins.\<close>
  "match_delimited [] s = None"
| "match_delimited (n # ns) s =
     (if digits_at n s
      then (case match_tail (drop n s) of
              Some t \<Rightarrow> Some (take n s @ t)
            | None \<Rightarrow> match_delimited ns s)
      else match_delimited ns s)"

definition match_here :: "string \<Rightarrow> string option" where
  "match_here s = (if digits_at 8 s then Some (take 8 s) else match_delimited [4, 3, 2] s)"

fun re_search :: "string \<Rightarrow> string option" where
  "re_search [] = match_here []"
| "re_search (c # cs) =
     (case match_here (c # cs) of Some t \<Rightarrow> Some t | None \<Rightarrow> re_search cs)"

definition clean :: "string \<Rightarrow> string" where
  \<comment> \<open>\<open>re.sub(r'[^0-9]', '-', raw_string)\<close>\<close>
  "clean raw = map (\<lambda>c. if c \<in> set ''0123456789'' then c else CHR ''-'') raw"

section \<open>\<open>parse_filename\<close>\<close>

definition fund_names :: "string list" where
  "fund_names =
     [''Whitestone'', ''Wallington'', ''Catalysm'', ''Belaware'', ''Gohen'',
      ''Applebead'', ''Magnum'', ''Trustmind'', ''Leeder'', ''Virtous'']"

fun find_fund :: "string list \<Rightarrow> string \<Rightarrow> string option" where
  \<comment> \<open>The loop over the roster: the first name whose lower-case form occurs in the
      lower-cased file name; \<open>None\<close> when the loop ends without a \<open>break\<close>.\<close>
  "find_fund [] filename = None"
| "find_fund (name # names) filename =
     (if contains (lower filename) (lower name) then Some name
      else find_fund names filename)"

definition parse_filename :: "string \<Rightarrow> error + (string option \<times> string option)" where
  \<comment> \<open>\<open>InvestmentFunds.parse_filename\<close> (investmentfund.py): \<open>fund_name\<close> starts as
      \<open>None\<close>, and a file name with no date token returns early.\<close>
  "parse_filename filename =
     (let fund_name = find_fund fund_names filename
      in case re_search filename of
           None \<Rightarrow> Inr (fund_name, None)
         | Some raw_string \<Rightarrow>
             (case standardize (clean raw_string) formats of
                Inl e \<Rightarrow> Inl e
              | Inr d \<Rightarrow> Inr (fund_name, d)))"

definition orig_parse_filename :: "string \<Rightarrow> error + (string option \<times> string option)" where
  \<comment> \<open>\<open>parse_filename\<close> of orig_file.py: \<open>fund_name\<close> is bound only by a roster match,
      \<open>match.group(0)\<close> is called on whatever \<open>re.search\<close> returned, and both
      \<open>return\<close> statements read \<open>fund_name\<close>.\<close>
  "orig_parse_filename filename =
     (let fund_name = find_fund fund_names filename
      in case re_search filename of
           None \<Rightarrow> Inl AttributeError
         | Some raw_string \<Rightarrow>
             (case standardize (clean raw_string) formats of
                Inl e \<Rightarrow> Inl e
              | Inr d \<Rightarrow>
                  (case fund_name of
                     None \<Rightarrow> Inl UnboundLocalError
                   | Some name \<Rightarrow> Inr (Some name, d))))"

section \<open>Numbers\<close>

text \<open>
  Numeric cells are float64 values. A finite value is modelled by the rational it
  denotes (rounding, overflow and the sign of zero are not modelled); the two infinities
  and NaN, which pandas also uses for a missing value, are kept apart, since division
  and \<open>dropna\<close> tell them apart.
\<close>

datatype fval = Fin rat | PInf | NInf | NaN

fun fneg :: "fval \<Rightarrow> fval" where
  "fneg (Fin a) = Fin (- a)"
| "fneg PInf = NInf"
| "fneg NInf = PInf"
| "fneg NaN = NaN"

fun fadd :: "fval \<Rightarrow> fval \<Rightarrow> fval" where
  "fadd NaN y = NaN"
| "fadd x NaN = NaN"
| "fadd (Fin a) (Fin b) = Fin (a + b)"
| "fadd PInf NInf = NaN"
| "fadd NInf PInf = NaN"
| "fadd PInf y = PInf"
| "fadd NInf y = NInf"
| "fadd (Fin a) y = y"

definition fsub :: "fval \<Rightarrow> fval \<Rightarrow> fval" where
  "fsub x y = fadd x (fneg y)"

fun fdiv :: "fval \<Rightarrow> fval \<Rightarrow> fval" where
  \<comment> \<open>float64 division as numpy does it: a zero divisor gives an infinity, or NaN for
      \<open>0/0\<close>, and raises nothing.\<close>
  "fdiv NaN y = NaN"
| "fdiv x NaN = NaN"
| "fdiv (Fin a) (Fin b) =
     (if b = 0 then (if a = 0 then NaN else if 0 < a then PInf else NInf)
      else Fin (a / b))"
| "fdiv (Fin a) y = Fin 0"
| "fdiv PInf (Fin b) = (if 0 \<le> b then PInf else NInf)"
| "fdiv NInf (Fin b) = (if 0 \<le> b then NInf else PInf)"
| "fdiv x y = NaN"

fun fle :: "fval \<Rightarrow> fval \<Rightarrow> bool" where
  \<comment> \<open>\<open>x <= y\<close> on floats; false when either side is NaN.\<close>
  "fle NaN y = False"
| "fle x NaN = False"
| "fle NInf y = True"
| "fle x PInf = True"
| "fle (Fin a) (Fin b) = (a \<le> b)"
| "fle x y = False"

definition nansum :: "fval list \<Rightarrow> fval" where
  \<comment> \<open>\<open>sum\<close> of a group with \<open>skipna=True\<close>: missing values are left out, and the sum
      of nothing is 0.\<close>
  "nansum xs = foldl fadd (Fin 0) (filter (\<lambda>v. v \<noteq> NaN) xs)"

section \<open>Tables\<close>

text \<open>
  A DataFrame is its columns in order, each a name and the cells. A column is numeric
  (int, float or bool dtype) or of object dtype (strings, with a missing value where the
  file had none). All columns of one table have the same length.
\<close>

datatype column = Numeric "fval list" | Object "string option list"

type_synonym table = "(string \<times> column) list"

datatype cell = Null | Num fval | Str string

type_synonym row = "(string \<times> cell) list"

datatype log_entry =
    Warn_missing_columns string "string option" "string list"
  | Warn_not_numeric string string
  | Warn_null_prices string
  | Info_ingested nat "string option"
  | Error_failed string error

definition fund_cols :: "string list" where
  "fund_cols =
     [''FINANCIAL TYPE'', ''SYMBOL'', ''SECURITY NAME'', ''ISIN'',
      ''PRICE'', ''QUANTITY'', ''REALISED P/L'', ''MARKET VALUE'']"

definition numeric_cols :: "string list" where
  "numeric_cols = [''PRICE'', ''QUANTITY'', ''REALISED P/L'', ''MARKET VALUE'']"

definition col_len :: "column \<Rightarrow> nat" where
  "col_len c = (case c of Numeric xs \<Rightarrow> length xs | Object xs \<Rightarrow> length xs)"

definition nrows :: "table \<Rightarrow> nat" where
  "nrows df = (case df of [] \<Rightarrow> 0 | (_, c) # _ \<Rightarrow> col_len c)"

fun set_column :: "table \<Rightarrow> string \<Rightarrow> column \<Rightarrow> table" where
  \<comment> \<open>\<open>df[col] = values\<close>: an existing column is replaced where it stands, a new one is
      added last.\<close>
  "set_column [] col v = [(col, v)]"
| "set_column ((k, c) # df) col v =
     (if k = col then (k, v) # df else (k, c) # set_column df col v)"

definition has_null :: "column \<Rightarrow> bool" where
  \<comment> \<open>\<open>column.isnull().any()\<close>\<close>
  "has_null c = (case c of Numeric xs \<Rightarrow> NaN \<in> set xs | Object xs \<Rightarrow> None \<in> set xs)"

definition to_numeric :: "(string \<Rightarrow> fval) \<Rightarrow> column \<Rightarrow> column" where
  \<comment> \<open>\<open>pd.to_numeric(column, errors='coerce')\<close>. How pandas reads one string as a
      number is the parameter \<open>num_of\<close>, which gives NaN for a string that is none.\<close>
  "to_numeric num_of c =
     (case c of
        Numeric xs \<Rightarrow> Numeric xs
      | Object xs \<Rightarrow> Numeric (map (\<lambda>x. case x of None \<Rightarrow> NaN | Some s \<Rightarrow> num_of s) xs))"

section \<open>\<open>validate_dataframe\<close>\<close>

fun coerce_numeric ::
  "(string \<Rightarrow> fval) \<Rightarrow> string \<Rightarrow> string list \<Rightarrow> table \<Rightarrow> log_entry list \<times> (error + table)"
where
  \<comment> \<open>The loop over \<open>numeric_cols\<close>. \<open>df[col]\<close> raises KeyError for a column the table
      does not have.\<close>
  "coerce_numeric num_of filename [] df = ([], Inr df)"
| "coerce_numeric num_of filename (col # cols) df =
     (case map_of df col of
        None \<Rightarrow> ([], Inl (KeyError col))
      | Some (Numeric xs) \<Rightarrow> coerce_numeric num_of filename cols df
      | Some (Object xs) \<Rightarrow>
          (case coerce_numeric num_of filename cols
                  (set_column df col (to_numeric num_of (Object xs))) of
             (w, r) \<Rightarrow> (Warn_not_numeric col filename # w, r)))"

definition validate_dataframe ::
  "(string \<Rightarrow> fval) \<Rightarrow> table \<Rightarrow> string option \<Rightarrow> string \<Rightarrow>
   log_entry list \<times> (error + bool \<times> table)"
where
  \<comment> \<open>The same in both files. The result is what was logged, and either the exception
      raised or the value returned with the table as the call left it.\<close>
  "validate_dataframe num_of df fund_name filename =
     (let missing = filter (\<lambda>col. col \<notin> set (map fst df)) fund_cols;
          w1 = (if missing \<noteq> [] then [Warn_missing_columns filename fund_name missing] else [])
      in case coerce_numeric num_of filename numeric_cols df of
           (w2, Inl e) \<Rightarrow> (w1 @ w2, Inl e)
         | (w2, Inr df') \<Rightarrow>
             (case map_of df' ''PRICE'' of
                None \<Rightarrow> (w1 @ w2, Inl (KeyError ''PRICE''))
              | Some c \<Rightarrow>
                  (w1 @ w2 @ (if has_null c then [Warn_null_prices filename] else []),
                   Inr (True, df'))))"

section \<open>\<open>ingest_csv\<close>\<close>

text \<open>
  A snapshot file is its name and what \<open>pd.read_csv\<close> does with it: the table read, or
  the exception raised. The holdings store is the list of rows of \<open>external_funds\<close>,
  each row the cells a file's table gave it (a column the table lacks is NULL).
\<close>

type_synonym csv_file = "string \<times> (error + table)"

definition schema :: "string list" where
  "schema =
     [''FUND NAME'', ''FINANCIAL TYPE'', ''SYMBOL'', ''SEDOL'', ''SECURITY NAME'', ''ISIN'',
      ''PRICE'', ''QUANTITY'', ''REALISED P/L'', ''MARKET VALUE'', ''REPORT DATE'']"

definition cell_at :: "column \<Rightarrow> nat \<Rightarrow> cell" where
  "cell_at c i =
     (case c of
        Numeric xs \<Rightarrow>
          (if i < length xs then (case xs ! i of NaN \<Rightarrow> Null | v \<Rightarrow> Num v) else Null)
      | Object xs \<Rightarrow>
          (if i < length xs then (case xs ! i of None \<Rightarrow> Null | Some s \<Rightarrow> Str s) else Null))"

definition rows_of :: "table \<Rightarrow> row list" where
  "rows_of df = map (\<lambda>i. map (\<lambda>(k, c). (k, cell_at c i)) df) [0..<nrows df]"

definition to_sql :: "table \<Rightarrow> error + row list" where
  \<comment> \<open>\<open>df.to_sql('external_funds', conn, if_exists='append', index=False)\<close>: the rows to
      append; sqlite refuses a column the table does not have.\<close>
  "to_sql df =
     (if list_all (\<lambda>k. k \<in> set schema) (map fst df) then Inr (rows_of df)
      else Inl OperationalError)"

definition tag :: "table \<Rightarrow> string option \<Rightarrow> string option \<Rightarrow> table" where
  \<comment> \<open>\<open>df['FUND NAME'] = fund_name; df['REPORT DATE'] = report_date\<close>\<close>
  "tag df fund_name report_date =
     set_column (set_column df ''FUND NAME'' (Object (replicate (nrows df) fund_name)))
       ''REPORT DATE'' (Object (replicate (nrows df) report_date))"

definition load_file ::
  "(string \<Rightarrow> fval) \<Rightarrow> string \<Rightarrow> string option \<Rightarrow> string option \<Rightarrow> (error + table) \<Rightarrow>
   log_entry list \<times> (error + row list)"
where
  \<comment> \<open>The loop body after \<open>parse_filename\<close>, the same in both files: read, validate, tag
      and append. The result is what was logged and the exception raised or the rows
      appended.\<close>
  "load_file num_of file fund_name report_date r =
     (case r of
        Inl e \<Rightarrow> ([], Inl e)
      | Inr df \<Rightarrow>
          (case validate_dataframe num_of df fund_name file of
             (w, Inl e) \<Rightarrow> (w, Inl e)
           | (w, Inr (ok, df')) \<Rightarrow>
               if \<not> ok then (w, Inr [])
               else (case to_sql (tag df' fund_name report_date) of
                       Inl e \<Rightarrow> (w, Inl e)
                     | Inr rows \<Rightarrow> (w @ [Info_ingested (nrows df') fund_name], Inr rows))))"

definition process_file ::
  "(string \<Rightarrow> fval) \<Rightarrow> csv_file \<Rightarrow> log_entry list \<times> (error + row list)"
where
  \<comment> \<open>The body of the \<open>try\<close> in \<open>InvestmentFunds.ingest_csv\<close>.\<close>
  "process_file num_of f =
     (case parse_filename (fst f) of
        Inl e \<Rightarrow> ([], Inl e)
      | Inr (fund_name, report_date) \<Rightarrow> load_file num_of (fst f) fund_name report_date (snd f))"

fun ingest_files ::
  "(string \<Rightarrow> fval) \<Rightarrow> csv_file list \<Rightarrow> row list \<times> log_entry list \<Rightarrow> row list \<times> log_entry list"
where
  \<comment> \<open>The loop of \<open>InvestmentFunds.ingest_csv\<close>: \<open>except Exception\<close> logs the failure
      and goes on to the next file.\<close>
  "ingest_files num_of [] st = st"
| "ingest_files num_of (f # fs) (store, logged) =
     (case process_file num_of f of
        (w, Inl e) \<Rightarrow> ingest_files num_of fs (store, logged @ w @ [Error_failed (fst f) e])
      | (w, Inr rows) \<Rightarrow> ingest_files num_of fs (store @ rows, logged @ w))"

definition ingest_csv ::
  "(string \<Rightarrow> fval) \<Rightarrow> csv_file list option \<Rightarrow> row list \<times> log_entry list"
where
  \<comment> \<open>\<open>InvestmentFunds.ingest_csv\<close>: the table is dropped and created empty; a missing
      folder (\<open>None\<close>) ends the call; only names ending in \<open>.csv\<close> are read.\<close>
  "ingest_csv num_of folder =
     (case folder of
        None \<Rightarrow> ([], [])
      | Some listing \<Rightarrow>
          ingest_files num_of (filter (\<lambda>f. suffix ''.csv'' (fst f)) listing) ([], []))"

definition orig_process_file ::
  "(string \<Rightarrow> fval) \<Rightarrow> csv_file \<Rightarrow> log_entry list \<times> (error + row list)"
where
  \<comment> \<open>The loop body of \<open>ingest_csv\<close> in orig_file.py.\<close>
  "orig_process_file num_of f =
     (case orig_parse_filename (fst f) of
        Inl e \<Rightarrow> ([], Inl e)
      | Inr (fund_name, report_date) \<Rightarrow> load_file num_of (fst f) fund_name report_date (snd f))"

fun orig_ingest_files ::
  "(string \<Rightarrow> fval) \<Rightarrow> csv_file list \<Rightarrow> row list \<times> log_entry list \<Rightarrow>
   (row list \<times> log_entry list) \<times> error option"
where
  \<comment> \<open>The loop of \<open>ingest_csv\<close> in orig_file.py has no \<open>try\<close>: an exception leaves the
      loop and the function, with the store as the files before it left it.\<close>
  "orig_ingest_files num_of [] st = (st, None)"
| "orig_ingest_files num_of (f # fs) (store, logged) =
     (case orig_process_file num_of f of
        (w, Inl e) \<Rightarrow> ((store, logged @ w), Some e)
      | (w, Inr rows) \<Rightarrow> orig_ingest_files num_of fs (store @ rows, logged @ w))"

definition orig_ingest_csv ::
  "(string \<Rightarrow> fval) \<Rightarrow> csv_file list option \<Rightarrow> (row list \<times> log_entry list) \<times> error option"
where
  \<comment> \<open>\<open>ingest_csv\<close> of orig_file.py: \<open>os.listdir\<close> raises when the folder is
      missing.\<close>
  "orig_ingest_csv num_of folder =
     (case folder of
        None \<Rightarrow> (([], []), Some FileNotFoundError)
      | Some listing \<Rightarrow>
          orig_ingest_files num_of (filter (\<lambda>f. suffix ''.csv'' (fst f)) listing) ([], []))"

section \<open>The holdings store and the price tables, as read back\<close>

text \<open>
  A holding is one row of \<open>external_funds\<close> as \<open>pd.read_sql\<close> returns it, with the
  columns the two reports compute with (the others are carried along unchanged). An
  observation is one row of \<open>bond_prices\<close> or \<open>equity_prices\<close> after the renaming of
  the query. Timestamps are modelled as integers on one scale. How \<open>pd.to_datetime\<close>
  reads one string of a column is a parameter: the timestamp, NaT (\<open>None\<close>), or the
  exception it raises; a missing value becomes NaT.
\<close>

record holding =
  h_fund_name :: "string option"
  h_symbol :: "string option"
  h_isin :: "string option"
  h_price :: fval
  h_market_value :: fval
  h_realised_pl :: fval
  h_report_date :: "string option"

record observation =
  o_identifier :: "string option"
  o_master_price :: fval
  o_datetime :: "string option"

definition to_timestamp ::
  "(string \<Rightarrow> error + int option) \<Rightarrow> string option \<Rightarrow> error + int option"
where
  \<comment> \<open>one cell of the column\<close>
  "to_timestamp parse x = (case x of None \<Rightarrow> Inr None | Some s \<Rightarrow> parse s)"

fun to_datetime ::
  "(string \<Rightarrow> error + int option) \<Rightarrow> string option list \<Rightarrow> error + int option list"
where
  \<comment> \<open>\<open>pd.to_datetime(column)\<close>: the first cell that cannot be read ends the call.\<close>
  "to_datetime parse [] = Inr []"
| "to_datetime parse (x # xs) =
     (case to_timestamp parse x of
        Inl e \<Rightarrow> Inl e
      | Inr d \<Rightarrow>
          (case to_datetime parse xs of
             Inl e \<Rightarrow> Inl e
           | Inr ds \<Rightarrow> Inr (d # ds)))"

definition na_last :: "int option \<Rightarrow> bool \<times> int" where
  \<comment> \<open>the sort key of a timestamp: \<open>sort_values\<close> puts NaT last\<close>
  "na_last d = (case d of None \<Rightarrow> (True, 0) | Some t \<Rightarrow> (False, t))"

definition sort_values_dt :: "(int option \<times> 'a) list \<Rightarrow> (int option \<times> 'a) list" where
  \<comment> \<open>\<open>df.sort_values('dt')\<close>. Rows with equal timestamps keep their order here; pandas
      promises no order among them.\<close>
  "sort_values_dt df = sort_key (\<lambda>x. na_last (fst x)) df"

section \<open>\<open>generate_reconciliation_report\<close>\<close>

definition identifier_of :: "holding \<Rightarrow> string option" where
  \<comment> \<open>\<open>fund_df['SYMBOL'].fillna(fund_df['ISIN'])\<close>\<close>
  "identifier_of h = (case h_symbol h of None \<Rightarrow> h_isin h | Some s \<Rightarrow> Some s)"

fun no_nulls :: "(int option \<times> 'a) list \<Rightarrow> (int \<times> 'a) list option" where
  "no_nulls [] = Some []"
| "no_nulls ((d, x) # xs) =
     (case d of
        None \<Rightarrow> None
      | Some t \<Rightarrow> (case no_nulls xs of None \<Rightarrow> None | Some ys \<Rightarrow> Some ((t, x) # ys)))"

definition asof_backward :: "(int \<times> observation) list \<Rightarrow> string option \<Rightarrow> int \<Rightarrow> fval" where
  \<comment> \<open>Backward search in the sorted right table: the last row of the same identifier
      whose timestamp is not after \<open>t\<close>; a missing value when there is none.\<close>
  "asof_backward right ident t =
     (case filter (\<lambda>(t', ob). o_identifier ob = ident \<and> t' \<le> t) right of
        [] \<Rightarrow> NaN
      | xs \<Rightarrow> o_master_price (snd (last xs)))"

definition merge_asof ::
  "(int option \<times> holding) list \<Rightarrow> (int option \<times> observation) list \<Rightarrow>
   error + (int \<times> holding \<times> fval) list"
where
  \<comment> \<open>\<open>pd.merge_asof(left, right, on='dt', by='IDENTIFIER', direction='backward')\<close>: a
      missing merge key on either side, or keys out of order, raise ValueError.\<close>
  "merge_asof left right =
     (case no_nulls left of
        None \<Rightarrow> Inl ValueError
      | Some l \<Rightarrow>
          (case no_nulls right of
             None \<Rightarrow> Inl ValueError
           | Some r \<Rightarrow>
               if sorted (map fst l) \<and> sorted (map fst r)
               then Inr (map (\<lambda>(t, h). (t, h, asof_backward r (identifier_of h) t)) l)
               else Inl ValueError))"

record recon_row =
  r_holding :: holding
  r_identifier :: "string option"
  r_dt :: int
  r_master_price :: fval
  r_price_diff :: fval

definition master_df ::
  "(string \<Rightarrow> error + int option) \<Rightarrow> (string \<Rightarrow> error + int option) \<Rightarrow>
   observation list \<Rightarrow> observation list \<Rightarrow> error + (int option \<times> observation) list"
where
  \<comment> \<open>The two price tables, each with its \<open>dt\<close> column, concatenated and sorted. Each
      table has its own reading of dates.\<close>
  "master_df parse_b parse_e bonds equities =
     (case to_datetime parse_b (map o_datetime bonds) of
        Inl e \<Rightarrow> Inl e
      | Inr bds \<Rightarrow>
          (case to_datetime parse_e (map o_datetime equities) of
             Inl e \<Rightarrow> Inl e
           | Inr eds \<Rightarrow> Inr (sort_values_dt (zip bds bonds @ zip eds equities))))"

definition fund_df ::
  "(string \<Rightarrow> error + int option) \<Rightarrow> holding list \<Rightarrow> error + (int option \<times> holding) list"
where
  \<comment> \<open>The holdings with their \<open>dt\<close> column, sorted.\<close>
  "fund_df parse_h holdings =
     (case to_datetime parse_h (map h_report_date holdings) of
        Inl e \<Rightarrow> Inl e
      | Inr hds \<Rightarrow> Inr (sort_values_dt (zip hds holdings)))"

definition generate_reconciliation_report ::
  "(string \<Rightarrow> error + int option) \<Rightarrow> (string \<Rightarrow> error + int option) \<Rightarrow>
   (string \<Rightarrow> error + int option) \<Rightarrow>
   observation list \<Rightarrow> observation list \<Rightarrow> holding list \<Rightarrow> error + recon_row list"
where
  \<comment> \<open>The rows written to the reconciliation file, or the exception that ends the call.\<close>
  "generate_reconciliation_report parse_b parse_e parse_h bonds equities holdings =
     (case master_df parse_b parse_e bonds equities of
        Inl e \<Rightarrow> Inl e
      | Inr master \<Rightarrow>
          (case fund_df parse_h holdings of
             Inl e \<Rightarrow> Inl e
           | Inr funds \<Rightarrow>
               (case merge_asof funds master of
                  Inl e \<Rightarrow> Inl e
                | Inr df \<Rightarrow>
                    Inr (map (\<lambda>(t, h, mp).
                           \<lparr>r_holding = h, r_identifier = identifier_of h, r_dt = t,
                            r_master_price = mp, r_price_diff = fsub (h_price h) mp\<rparr>) df))))"

section \<open>\<open>generate_performance_report\<close>\<close>

record agg =
  a_fund :: string
  a_dt :: int
  a_report_date :: string
  a_market_value :: fval
  a_realised_pl :: fval

record perf =
  p_fund :: string
  p_dt :: int
  p_report_date :: string
  p_market_value :: fval
  p_realised_pl :: fval
  p_starting_mv :: fval
  p_ror :: fval


definition group_key :: "int option \<times> holding \<Rightarrow> (string \<times> int \<times> string) option" where
  \<comment> \<open>The key \<open>('FUND NAME', 'dt', 'REPORT DATE')\<close> of a row; \<open>groupby\<close> leaves out a
      row with a missing value in a key column.\<close>
  "group_key x =
     (case h_fund_name (snd x) of
        None \<Rightarrow> None
      | Some f \<Rightarrow>
          (case fst x of
             None \<Rightarrow> None
           | Some t \<Rightarrow>
               (case h_report_date (snd x) of None \<Rightarrow> None | Some r \<Rightarrow> Some (f, t, r))))"

definition groupby_sum :: "(int option \<times> holding) list \<Rightarrow> agg list" where
  \<comment> \<open>\<open>df.groupby([...]).agg({'MARKET VALUE': 'sum', 'REALISED P/L': 'sum'})
      .reset_index()\<close>: one row per key that occurs, in the order of the keys.\<close>
  "groupby_sum df =
     map (\<lambda>k.
            \<lparr>a_fund = fst k, a_dt = fst (snd k), a_report_date = snd (snd k),
             a_market_value =
               nansum (map (\<lambda>x. h_market_value (snd x)) (filter (\<lambda>x. group_key x = Some k) df)),
             a_realised_pl =
               nansum (map (\<lambda>x. h_realised_pl (snd x)) (filter (\<lambda>x. group_key x = Some k) df))\<rparr>)
         (sort (remdups (List.map_filter group_key df)))"

fun shift_by_fund :: "(string \<rightharpoonup> fval) \<Rightarrow> agg list \<Rightarrow> fval list" where
  \<comment> \<open>\<open>monthly.groupby('FUND NAME')['MARKET VALUE'].shift(1)\<close>: for each row the market
      value of the row before it of the same fund, a missing value when it is the fund's
      first. \<open>prev\<close> holds the last market value seen of each fund.\<close>
  "shift_by_fund prev [] = []"
| "shift_by_fund prev (a # as) =
     (case prev (a_fund a) of None \<Rightarrow> NaN | Some v \<Rightarrow> v)
       # shift_by_fund (prev(a_fund a \<mapsto> a_market_value a)) as"

definition with_ror :: "agg \<times> fval \<Rightarrow> perf" where
  \<comment> \<open>the columns \<open>STARTING_MV\<close> and \<open>ROR\<close> of one row\<close>
  "with_ror x =
     (case x of (a, start) \<Rightarrow>
        \<lparr>p_fund = a_fund a, p_dt = a_dt a, p_report_date = a_report_date a,
         p_market_value = a_market_value a, p_realised_pl = a_realised_pl a,
         p_starting_mv = start,
         p_ror = fdiv (fadd (fsub (a_market_value a) start) (a_realised_pl a)) start\<rparr>)"

definition monthly_ror :: "(int option \<times> holding) list \<Rightarrow> perf list" where
  \<comment> \<open>\<open>monthly\<close> with its two computed columns, before \<open>dropna\<close>\<close>
  "monthly_ror df =
     (let monthly = sort_key (\<lambda>a. (a_fund a, a_dt a)) (groupby_sum df)
      in map with_ror (zip monthly (shift_by_fund Map.empty monthly)))"

definition dropna_ror :: "perf list \<Rightarrow> perf list" where
  \<comment> \<open>\<open>monthly.dropna(subset=['ROR'])\<close>\<close>
  "dropna_ror ms = filter (\<lambda>m. p_ror m \<noteq> NaN) ms"

definition ror_desc :: "fval \<Rightarrow> nat \<times> rat" where
  \<comment> \<open>the sort key of \<open>ROR\<close> in descending order, a missing value last\<close>
  "ror_desc v =
     (case v of PInf \<Rightarrow> (0, 0) | Fin r \<Rightarrow> (1, - r) | NInf \<Rightarrow> (2, 0) | NaN \<Rightarrow> (3, 0))"

fun drop_duplicates_dt :: "int list \<Rightarrow> perf list \<Rightarrow> perf list" where
  \<comment> \<open>\<open>drop_duplicates('dt')\<close> keeps the first row of each \<open>dt\<close>; \<open>seen\<close> holds the
      values met so far.\<close>
  "drop_duplicates_dt seen [] = []"
| "drop_duplicates_dt seen (m # ms) =
     (if p_dt m \<in> set seen then drop_duplicates_dt seen ms
      else m # drop_duplicates_dt (p_dt m # seen) ms)"

definition best_funds :: "perf list \<Rightarrow> perf list" where
  \<comment> \<open>\<open>monthly.sort_values(['dt', 'ROR'], ascending=[True, False]).drop_duplicates('dt')\<close>\<close>
  "best_funds ms = drop_duplicates_dt [] (sort_key (\<lambda>m. (p_dt m, ror_desc (p_ror m))) ms)"

definition monthly_returns ::
  "(string \<Rightarrow> error + int option) \<Rightarrow> holding list \<Rightarrow> error + perf list"
where
  \<comment> \<open>\<open>monthly\<close> after \<open>dropna\<close>: the rows that are ranked.\<close>
  "monthly_returns parse holdings =
     (case to_datetime parse (map h_report_date holdings) of
        Inl e \<Rightarrow> Inl e
      | Inr dts \<Rightarrow> Inr (dropna_ror (monthly_ror (zip dts holdings))))"

definition generate_performance_report ::
  "(string \<Rightarrow> error + int option) \<Rightarrow> holding list \<Rightarrow> error + perf list"
where
  \<comment> \<open>The rows written to the performance file, or the exception that ends the call.\<close>
  "generate_performance_report parse holdings =
     (case monthly_returns parse holdings of
        Inl e \<Rightarrow> Inl e
      | Inr monthly \<Rightarrow> Inr (best_funds monthly))"

section \<open>Example data\<close>

definition no_strings :: "string \<Rightarrow> fval" where
  \<comment> \<open>a reading of strings as numbers under which no string is a number\<close>
  "no_strings s = NaN"

definition snapshot_table :: table where
  \<comment> \<open>a snapshot of one holding with the eight required columns\<close>
  "snapshot_table =
     [(''FINANCIAL TYPE'', Object [Some ''Equities'']),
      (''SYMBOL'', Object [Some ''MSFT'']),
      (''SECURITY NAME'', Object [Some ''Microsoft'']),
      (''ISIN'', Object [None]),
      (''PRICE'', Numeric [Fin 250]),
      (''QUANTITY'', Numeric [Fin 4]),
      (''REALISED P/L'', Numeric [Fin 10]),
      (''MARKET VALUE'', Numeric [Fin 1000])]"

definition table_without_price :: table where
  \<comment> \<open>the same snapshot without its \<open>PRICE\<close> column\<close>
  "table_without_price = filter (\<lambda>kc. fst kc \<noteq> ''PRICE'') snapshot_table"

definition table_without_isin :: table where
  \<comment> \<open>the same snapshot without its \<open>ISIN\<close> column\<close>
  "table_without_isin = filter (\<lambda>kc. fst kc \<noteq> ''ISIN'') snapshot_table"

definition folder_with_corrupt_file :: "csv_file list" where
  \<comment> \<open>a file that \<open>pd.read_csv\<close> cannot read, then a good one\<close>
  "folder_with_corrupt_file =
     [(''Gohen_30-11-2022.csv'', Inl ReadError),
      (''Gohen_31-12-2022.csv'', Inr snapshot_table)]"

definition example_calendar :: "string \<Rightarrow> error + int option" where
  \<comment> \<open>a reading of three month-end dates as day numbers; any other string raises\<close>
  "example_calendar s =
     (case map_of [(''1/31/2022'', 31), (''2/28/2022'', 59), (''3/31/2022'', 90)] s of
        None \<Rightarrow> Inl ValueError
      | Some t \<Rightarrow> Inr (Some t))"

definition position :: "string option \<Rightarrow> string option \<Rightarrow> rat \<Rightarrow> rat \<Rightarrow> holding" where
  \<comment> \<open>a holding of a fund at a report date with a market value and a realised P/L\<close>
  "position f d mv pl =
     \<lparr>h_fund_name = f, h_symbol = Some ''MSFT'', h_isin = None, h_price = Fin 250,
      h_market_value = Fin mv, h_realised_pl = Fin pl, h_report_date = d\<rparr>"


definition zero_start :: "holding list" where
  \<comment> \<open>two funds over two months; the first fund's market value in the first month is 0\<close>
  "zero_start =
     [position (Some ''Gohen'') (Some ''1/31/2022'') 0 0,
      position (Some ''Gohen'') (Some ''2/28/2022'') 110 5,
      position (Some ''Magnum'') (Some ''1/31/2022'') 100 0,
      position (Some ''Magnum'') (Some ''2/28/2022'') 150 0]"

definition two_funds :: "holding list" where
  \<comment> \<open>two funds over two months: one returns 0.15, the other 0.5\<close>
  "two_funds =
     [position (Some ''Gohen'') (Some ''1/31/2022'') 100 0,
      position (Some ''Gohen'') (Some ''2/28/2022'') 110 5,
      position (Some ''Magnum'') (Some ''1/31/2022'') 100 0,
      position (Some ''Magnum'') (Some ''2/28/2022'') 150 0]"

definition with_undefined :: "holding list" where
  \<comment> \<open>the same with a row of no fund and a row of no report date\<close>
  "with_undefined =
     two_funds @
     [position None (Some ''2/28/2022'') 999 0,
      position (Some ''Gohen'') None 999 0]"


definition gohen_feb :: perf where
  "gohen_feb =
     \<lparr>p_fund = ''Gohen'', p_dt = 59, p_report_date = ''2/28/2022'',
      p_market_value = Fin 110, p_realised_pl = Fin 5, p_starting_mv = Fin 100,
      p_ror = Fin (15 / 100)\<rparr>"


definition magnum_feb :: perf where
  "magnum_feb =
     \<lparr>p_fund = ''Magnum'', p_dt = 59, p_report_date = ''2/28/2022'',
      p_market_value = Fin 150, p_realised_pl = Fin 0, p_starting_mv = Fin 100,
      p_ror = Fin (1 / 2)\<rparr>"

definition bond_prices :: "observation list" where
  "bond_prices =
     [\<lparr>o_identifier = Some ''US0001'', o_master_price = Fin 99, o_datetime = Some ''1/31/2022''\<rparr>]"

definition equity_prices :: "observation list" where
  "equity_prices =
     [\<lparr>o_identifier = Some ''MSFT'', o_master_price = Fin 260, o_datetime = Some ''3/31/2022''\<rparr>,
      \<lparr>o_identifier = Some ''MSFT'', o_master_price = Fin 240, o_datetime = Some ''1/31/2022''\<rparr>,
      \<lparr>o_identifier = Some ''MSFT'', o_master_price = Fin 251, o_datetime = Some ''2/28/2022''\<rparr>]"

definition priced :: "string option \<Rightarrow> string option \<Rightarrow> fval \<Rightarrow> string \<Rightarrow> holding" where
  \<comment> \<open>a holding of Gohen with a symbol, an ISIN, a price and a report date\<close>
  "priced symbol isin pr d =
     \<lparr>h_fund_name = Some ''Gohen'', h_symbol = symbol, h_isin = isin, h_price = pr,
      h_market_value = Fin 1000, h_realised_pl = Fin 0, h_report_date = Some d\<rparr>"

definition priced_holdings :: "holding list" where
  \<comment> \<open>an equity priced after the latest observation, a bond known by its ISIN, an equity
      with no observation, and an equity with no price\<close>
  "priced_holdings =
     [priced (Some ''MSFT'') None (Fin 250) ''2/28/2022'',
      priced None (Some ''US0001'') (Fin 100) ''2/28/2022'',
      priced (Some ''AAPL'') None (Fin 170) ''2/28/2022'',
      priced (Some ''MSFT'') None NaN ''1/31/2022'']"


section \<open>Properties of \<open>parse_filename\<close>\<close>

subsection \<open>The fund name\<close>

lemma contains_sublist: "contains s sub \<longleftrightarrow> sublist sub s"
  by (induction s) (auto simp: sublist_Cons_right)

lemma find_fund_None:
  "find_fund names filename = None \<longleftrightarrow>
     (\<forall>n \<in> set names. \<not> sublist (lower n) (lower filename))"
  by (induction names) (auto simp: contains_sublist)


subsection \<open>The loop over the formats\<close>

lemma strptime_ValueError: "strptime s fmt = Inl e \<Longrightarrow> e = ValueError"
  by (auto simp: strptime_def split: list.splits if_splits prod.splits)

lemma standardize_returns: "\<exists>d. standardize s fmts = Inr d"
proof (induction fmts)
  case Nil
  show ?case by simp
next
  case (Cons fmt fmts)
  show ?case
  proof (cases "strptime s fmt")
    case (Inl e)
    then have "e = ValueError" by (rule strptime_ValueError)
    with Inl Cons show ?thesis by simp
  next
    case (Inr dt)
    with Cons show ?thesis by simp
  qed
qed




subsection \<open>What each layout accepts\<close>

lemma digit_val_le: "is_digit b \<Longrightarrow> digit_val b \<le> 9"
  by (auto simp: is_digit_def digit_val_def)



lemma hyphen_not_digit [simp]: "\<not> is_digit CHR ''-''"
  by (simp add: is_digit_def)






















lemma parse_filename_returns:
  "\<exists>d. parse_filename filename = Inr (find_fund fund_names filename, d)"
proof (cases "re_search filename")
  case None
  then show ?thesis by (simp add: parse_filename_def)
next
  case (Some raw)
  obtain d where "standardize (clean raw) formats = Inr d"
    using standardize_returns by blast
  with Some show ?thesis by (simp add: parse_filename_def)
qed






subsection \<open>Totality\<close>

lemma parse_filename_total:
  "(\<exists>r. parse_filename filename = Inr r) \<and>
   ((\<forall>n \<in> set fund_names. \<not> sublist (lower n) (lower filename)) \<longrightarrow>
      (\<exists>d. parse_filename filename = Inr (None, d))) \<and>
   (re_search filename = None \<longrightarrow> (\<exists>f. parse_filename filename = Inr (f, None)))"
proof (intro conjI impI)
  show "\<exists>r. parse_filename filename = Inr r"
    using parse_filename_returns[of filename] by blast
next
  assume "\<forall>n \<in> set fund_names. \<not> sublist (lower n) (lower filename)"
  then have "find_fund fund_names filename = None" by (simp add: find_fund_None)
  with parse_filename_returns[of filename]
  show "\<exists>d. parse_filename filename = Inr (None, d)" by simp
next
  assume "re_search filename = None"
  then show "\<exists>f. parse_filename filename = Inr (f, None)"
    by (simp add: parse_filename_def)
qed

text \<open>
  C8. \<open>InvestmentFunds.parse_filename\<close> returns on every file name
  (\<open>parse_filename_total\<close>). The copy in orig_file.py does not: with no roster name in
  the file name \<open>fund_name\<close> is never bound and the \<open>return\<close> raises
  UnboundLocalError; with no date token \<open>match\<close> is \<open>None\<close> and \<open>match.group(0)\<close>
  raises AttributeError.
\<close>

theorem orig_parse_filename_raises:
  "orig_parse_filename ''holdings_31-12-2022.csv'' = Inl UnboundLocalError \<and>
   orig_parse_filename ''Gohen.csv'' = Inl AttributeError \<and>
   parse_filename ''holdings_31-12-2022.csv'' = Inr (None, Some ''12/31/2022'') \<and>
   parse_filename ''Gohen.csv'' = Inr (Some ''Gohen'', None)"
  by code_simp

section \<open>Properties of \<open>validate_dataframe\<close>\<close>

lemma map_fst_set_column:
  "col \<in> set (map fst df) \<Longrightarrow> map fst (set_column df col v) = map fst df"
  by (induction df) force+

lemma coerce_numeric_returns:
  assumes "set cols \<subseteq> set (map fst df)"
  shows "\<exists>w df'. coerce_numeric num_of filename cols df = (w, Inr df') \<and>
           map fst df' = map fst df"
  using assms
proof (induction cols arbitrary: df)
  case Nil
  show ?case by simp
next
  case (Cons col cols)
  from Cons.prems have col: "col \<in> set (map fst df)" and rest: "set cols \<subseteq> set (map fst df)"
    by simp_all
  from col obtain c where c: "map_of df col = Some c"
    by (metis map_of_eq_None_iff not_Some_eq set_map)
  show ?case
  proof (cases c)
    case (Numeric xs)
    with c Cons.IH[OF rest] show ?thesis by simp
  next
    case (Object xs)
    let ?df = "set_column df col (to_numeric num_of (Object xs))"
    from col have names: "map fst ?df = map fst df" by (rule map_fst_set_column)
    with rest have "set cols \<subseteq> set (map fst ?df)" by simp
    from Cons.IH[OF this] obtain w df'
      where "coerce_numeric num_of filename cols ?df = (w, Inr df')" "map fst df' = map fst ?df"
      by blast
    with c Object names show ?thesis by simp
  qed
qed

lemma coerce_numeric_raises:
  assumes "\<not> set cols \<subseteq> set (map fst df)"
  shows "\<exists>w col. coerce_numeric num_of filename cols df = (w, Inl (KeyError col))"
  using assms
proof (induction cols arbitrary: df)
  case Nil
  then show ?case by simp
next
  case (Cons col cols)
  show ?case
  proof (cases "map_of df col")
    case None
    then show ?thesis by simp
  next
    case (Some c)
    then have col: "col \<in> set (map fst df)"
      by (metis map_of_eq_None_iff option.distinct(1) set_map)
    with Cons.prems have rest: "\<not> set cols \<subseteq> set (map fst df)" by simp
    show ?thesis
    proof (cases c)
      case (Numeric xs)
      with Some Cons.IH[OF rest] show ?thesis by simp
    next
      case (Object xs)
      let ?df = "set_column df col (to_numeric num_of (Object xs))"
      from col have "map fst ?df = map fst df" by (rule map_fst_set_column)
      with rest have "\<not> set cols \<subseteq> set (map fst ?df)" by simp
      from Cons.IH[OF this] obtain w k
        where "coerce_numeric num_of filename cols ?df = (w, Inl (KeyError k))" by blast
      with Some Object show ?thesis by simp
    qed
  qed
qed

lemma validate_dataframe_returns:
  assumes "set numeric_cols \<subseteq> set (map fst df)"
  shows "\<exists>w df'. validate_dataframe num_of df fund_name filename = (w, Inr (True, df'))"
proof -
  from coerce_numeric_returns[OF assms] obtain w df'
    where c: "coerce_numeric num_of filename numeric_cols df = (w, Inr df')"
      and names: "map fst df' = map fst df" by blast
  from assms names have "''PRICE'' \<in> set (map fst df')" by (auto simp: numeric_cols_def)
  then obtain p where "map_of df' ''PRICE'' = Some p"
    by (metis map_of_eq_None_iff not_Some_eq set_map)
  with c show ?thesis by (simp add: validate_dataframe_def Let_def)
qed

lemma validate_dataframe_raises:
  assumes "\<not> set numeric_cols \<subseteq> set (map fst df)"
  shows "\<exists>w col. validate_dataframe num_of df fund_name filename = (w, Inl (KeyError col))"
proof -
  from coerce_numeric_raises[OF assms] obtain w col
    where "coerce_numeric num_of filename numeric_cols df = (w, Inl (KeyError col))" by blast
  then show ?thesis by (simp add: validate_dataframe_def Let_def)
qed

text \<open>
  C2. \<open>validate_dataframe\<close> returns, and then returns \<open>True\<close>, exactly when the table
  has the four numeric columns (\<open>validate_dataframe_returns\<close>,
  \<open>validate_dataframe_raises\<close>). For a table that lacks \<open>PRICE\<close> it logs the missing
  column and then raises KeyError at \<open>df[col]\<close>; \<open>InvestmentFunds.ingest_csv\<close> catches
  it and skips the file, so none of its rows reach the store. A table that lacks only a
  column that is not numeric, such as \<open>ISIN\<close>, gets the warning and is ingested.
\<close>

theorem validate_dataframe_missing_price_raises:
  "validate_dataframe no_strings table_without_price (Some ''Gohen'') ''Gohen_31-12-2022.csv''
     = ([Warn_missing_columns ''Gohen_31-12-2022.csv'' (Some ''Gohen'') [''PRICE'']],
        Inl (KeyError ''PRICE'')) \<and>
   ingest_csv no_strings (Some [(''Gohen_31-12-2022.csv'', Inr table_without_price)])
     = ([], [Warn_missing_columns ''Gohen_31-12-2022.csv'' (Some ''Gohen'') [''PRICE''],
             Error_failed ''Gohen_31-12-2022.csv'' (KeyError ''PRICE'')]) \<and>
   validate_dataframe no_strings table_without_isin (Some ''Gohen'') ''Gohen_31-12-2022.csv''
     = ([Warn_missing_columns ''Gohen_31-12-2022.csv'' (Some ''Gohen'') [''ISIN'']],
        Inr (True, table_without_isin))"
  by code_simp
section \<open>Properties of \<open>ingest_csv\<close>\<close>

lemma ingest_files_store:
  "fst (ingest_files num_of fs (store, logged)) =
     store @ concat (map (\<lambda>f. case snd (process_file num_of f) of
                                Inl e \<Rightarrow> [] | Inr rows \<Rightarrow> rows) fs)"
proof (induction fs arbitrary: store logged)
  case Nil
  show ?case by simp
next
  case (Cons f fs)
  obtain w r where p: "process_file num_of f = (w, r)" by (cases "process_file num_of f")
  show ?case
  proof (cases r)
    case (Inl e)
    with p Cons[of store "logged @ w @ [Error_failed (fst f) e]"] show ?thesis by simp
  next
    case (Inr rows)
    with p Cons[of "store @ rows" "logged @ w"] show ?thesis by simp
  qed
qed

lemma ingest_files_keeps_log:
  "set logged \<subseteq> set (snd (ingest_files num_of fs (store, logged)))"
proof (induction fs arbitrary: store logged)
  case Nil
  show ?case by simp
next
  case (Cons f fs)
  obtain w r where p: "process_file num_of f = (w, r)" by (cases "process_file num_of f")
  show ?case
  proof (cases r)
    case (Inl e)
    with p Cons[of "logged @ w @ [Error_failed (fst f) e]" store] show ?thesis by auto
  next
    case (Inr rows)
    with p Cons[of "logged @ w" "store @ rows"] show ?thesis by auto
  qed
qed

lemma ingest_files_logs_failure:
  assumes "f \<in> set fs" and "snd (process_file num_of f) = Inl e"
  shows "Error_failed (fst f) e \<in> set (snd (ingest_files num_of fs (store, logged)))"
  using assms
proof (induction fs arbitrary: store logged)
  case Nil
  then show ?case by simp
next
  case (Cons g fs)
  obtain w r where p: "process_file num_of g = (w, r)" by (cases "process_file num_of g")
  show ?case
  proof (cases "f = g")
    case True
    with Cons.prems p have r: "r = Inl e" by simp
    have "Error_failed (fst g) e \<in> set (logged @ w @ [Error_failed (fst g) e])" by simp
    with ingest_files_keeps_log[of "logged @ w @ [Error_failed (fst g) e]" num_of fs store]
    have "Error_failed (fst g) e
            \<in> set (snd (ingest_files num_of fs (store, logged @ w @ [Error_failed (fst g) e])))"
      by blast
    with p r True show ?thesis by simp
  next
    case False
    with Cons.prems have "f \<in> set fs" by simp
    note IH = Cons.IH[OF this Cons.prems(2)]
    show ?thesis
    proof (cases r)
      case (Inl e')
      with p IH[of store "logged @ w @ [Error_failed (fst g) e']"] show ?thesis by simp
    next
      case (Inr rows)
      with p IH[of "store @ rows" "logged @ w"] show ?thesis by simp
    qed
  qed
qed

lemma ingest_files_skips_corrupt:
  assumes "snd (process_file num_of bad) = Inl e"
  shows "fst (ingest_files num_of (before @ bad # after) ([], [])) =
           fst (ingest_files num_of (before @ after) ([], [])) \<and>
         Error_failed (fst bad) e
           \<in> set (snd (ingest_files num_of (before @ bad # after) ([], [])))"
proof
  from assms
  show "fst (ingest_files num_of (before @ bad # after) ([], [])) =
          fst (ingest_files num_of (before @ after) ([], []))"
    by (simp add: ingest_files_store)
next
  have "bad \<in> set (before @ bad # after)" by simp
  from ingest_files_logs_failure[OF this assms]
  show "Error_failed (fst bad) e
          \<in> set (snd (ingest_files num_of (before @ bad # after) ([], [])))" .
qed

text \<open>
  C3. In \<open>InvestmentFunds.ingest_csv\<close> a file whose processing raises is logged and
  skipped, and the store holds the rows of the other files
  (\<open>ingest_files_skips_corrupt\<close>). The loop of \<open>ingest_csv\<close> in orig_file.py has no
  \<open>try\<close>: for a folder of one unreadable file followed by one good file the exception
  ends the run with an empty store, where investmentfund.py stores the good file's row.
\<close>

theorem orig_ingest_csv_aborts:
  "orig_ingest_csv no_strings (Some folder_with_corrupt_file) = (([], []), Some ReadError) \<and>
   ingest_csv no_strings (Some folder_with_corrupt_file) =
     (rows_of (tag snapshot_table (Some ''Gohen'') (Some ''12/31/2022'')),
      [Error_failed ''Gohen_30-11-2022.csv'' ReadError, Info_ingested 1 (Some ''Gohen'')]) \<and>
   length (rows_of (tag snapshot_table (Some ''Gohen'') (Some ''12/31/2022''))) = 1"
  by code_simp

section \<open>Properties of \<open>generate_performance_report\<close>\<close>

text \<open>
  C6. A period whose starting market value is 0 does not get a missing rate of return:
  the division gives an infinity, \<open>dropna\<close> keeps the row, and it is ranked. Here the
  fund that started at 0 is reported as the best of the second month with an infinite
  rate of return, ahead of a fund that returned one half.
\<close>

theorem zero_starting_value_ranked:
  "generate_performance_report example_calendar zero_start =
     Inr [\<lparr>p_fund = ''Gohen'', p_dt = 59, p_report_date = ''2/28/2022'',
           p_market_value = Fin 110, p_realised_pl = Fin 5,
           p_starting_mv = Fin 0, p_ror = PInf\<rparr>]"
  by code_simp

subsection \<open>Selecting the best fund of each period\<close>

lemma drop_duplicates_subset: "set (drop_duplicates_dt seen ms) \<subseteq> set ms"
  by (induction ms arbitrary: seen) auto

lemma drop_duplicates_unseen:
  "m \<in> set (drop_duplicates_dt seen ms) \<Longrightarrow> p_dt m \<notin> set seen"
proof (induction ms arbitrary: seen)
  case Nil
  then show ?case by simp
next
  case (Cons a ms)
  show ?case
  proof (cases "p_dt a \<in> set seen")
    case True
    with Cons show ?thesis by simp
  next
    case False
    with Cons.prems have "m = a \<or> m \<in> set (drop_duplicates_dt (p_dt a # seen) ms)" by simp
    then show ?thesis
    proof
      assume "m = a" with False show ?thesis by simp
    next
      assume "m \<in> set (drop_duplicates_dt (p_dt a # seen) ms)"
      from Cons.IH[OF this] show ?thesis by simp
    qed
  qed
qed

lemma drop_duplicates_distinct: "distinct (map p_dt (drop_duplicates_dt seen ms))"
proof (induction ms arbitrary: seen)
  case Nil
  show ?case by simp
next
  case (Cons m ms)
  show ?case
  proof (cases "p_dt m \<in> set seen")
    case True
    with Cons show ?thesis by simp
  next
    case False
    have "p_dt m \<notin> p_dt ` set (drop_duplicates_dt (p_dt m # seen) ms)"
    proof
      assume "p_dt m \<in> p_dt ` set (drop_duplicates_dt (p_dt m # seen) ms)"
      then obtain x where x: "x \<in> set (drop_duplicates_dt (p_dt m # seen) ms)" "p_dt x = p_dt m"
        by auto
      from drop_duplicates_unseen[OF x(1)] x(2) show False by simp
    qed
    with False Cons show ?thesis by simp
  qed
qed

lemma drop_duplicates_covers:
  "m \<in> set ms \<Longrightarrow> p_dt m \<notin> set seen \<Longrightarrow>
     \<exists>b \<in> set (drop_duplicates_dt seen ms). p_dt b = p_dt m"
proof (induction ms arbitrary: seen)
  case Nil
  then show ?case by simp
next
  case (Cons a ms)
  show ?case
  proof (cases "p_dt a = p_dt m")
    case True
    with Cons.prems show ?thesis by auto
  next
    case False
    with Cons.prems have m: "m \<in> set ms" by auto
    show ?thesis
    proof (cases "p_dt a \<in> set seen")
      case True
      with Cons.IH[OF m Cons.prems(2)] show ?thesis by simp
    next
      case notseen: False
      from Cons.prems(2) False have "p_dt m \<notin> set (p_dt a # seen)" by auto
      from Cons.IH[OF m this] notseen show ?thesis by auto
    qed
  qed
qed

lemma drop_duplicates_first:
  "b \<in> set (drop_duplicates_dt seen ms) \<Longrightarrow>
     \<exists>pre post. ms = pre @ b # post \<and> p_dt b \<notin> p_dt ` set pre"
proof (induction ms arbitrary: seen)
  case Nil
  then show ?case by simp
next
  case (Cons a ms)
  show ?case
  proof (cases "p_dt a \<in> set seen")
    case True
    with Cons.prems have b: "b \<in> set (drop_duplicates_dt seen ms)" by simp
    from Cons.IH[OF b] obtain pre post where pp: "ms = pre @ b # post" "p_dt b \<notin> p_dt ` set pre"
      by blast
    from drop_duplicates_unseen[OF b] True have "p_dt b \<noteq> p_dt a" by auto
    with pp have "a # ms = (a # pre) @ b # post" "p_dt b \<notin> p_dt ` set (a # pre)" by auto
    then show ?thesis by blast
  next
    case False
    show ?thesis
    proof (cases "b = a")
      case True
      have "a # ms = [] @ a # ms" "p_dt a \<notin> p_dt ` set []" by simp_all
      with True show ?thesis by blast
    next
      case ne: False
      with Cons.prems False have b: "b \<in> set (drop_duplicates_dt (p_dt a # seen) ms)" by simp
      from Cons.IH[OF b] obtain pre post where pp: "ms = pre @ b # post" "p_dt b \<notin> p_dt ` set pre"
        by blast
      from drop_duplicates_unseen[OF b] have "p_dt b \<noteq> p_dt a" by auto
      with pp have "a # ms = (a # pre) @ b # post" "p_dt b \<notin> p_dt ` set (a # pre)" by auto
      then show ?thesis by blast
    qed
  qed
qed

lemma ror_desc_le:
  assumes "x \<noteq> NaN" "y \<noteq> NaN" "ror_desc y \<le> ror_desc x"
  shows "fle x y"
  using assms by (cases x; cases y) (auto simp: ror_desc_def)

lemma first_of_sorted_is_best:
  assumes srt: "sorted (map (\<lambda>m. (p_dt m, ror_desc (p_ror m))) ms)"
    and split: "ms = pre @ b # post" and first: "p_dt b \<notin> p_dt ` set pre"
    and m: "m \<in> set ms" "p_dt m = p_dt b"
  shows "ror_desc (p_ror b) \<le> ror_desc (p_ror m)"
proof -
  from first m(2) have "m \<notin> set pre" by (metis imageI)
  with m(1) split have "m = b \<or> m \<in> set post" by auto
  then show ?thesis
  proof
    assume "m = b" then show ?thesis by simp
  next
    assume "m \<in> set post"
    with srt split have "(p_dt b, ror_desc (p_ror b)) \<le> (p_dt m, ror_desc (p_ror m))"
      by (auto simp: sorted_append)
    with m(2) show ?thesis by simp
  qed
qed

lemma best_funds_props:
  assumes "\<forall>m \<in> set ms. p_ror m \<noteq> NaN"
  shows "distinct (map p_dt (best_funds ms)) \<and> set (best_funds ms) \<subseteq> set ms \<and>
         (\<forall>b \<in> set (best_funds ms). \<forall>m \<in> set ms. p_dt m = p_dt b \<longrightarrow> fle (p_ror m) (p_ror b)) \<and>
         (\<forall>m \<in> set ms. \<exists>b \<in> set (best_funds ms). p_dt b = p_dt m)"
proof -
  let ?key = "\<lambda>m. (p_dt m, ror_desc (p_ror m))"
  let ?s = "sort_key ?key ms"
  have d: "distinct (map p_dt (best_funds ms))"
    by (simp add: best_funds_def drop_duplicates_distinct)
  have sub: "set (best_funds ms) \<subseteq> set ms"
    using drop_duplicates_subset[of "[]" ?s] by (simp add: best_funds_def)
  have best: "fle (p_ror m) (p_ror b)"
    if b: "b \<in> set (best_funds ms)" and m: "m \<in> set ms" "p_dt m = p_dt b" for b m
  proof -
    from b obtain pre post where pp: "?s = pre @ b # post" "p_dt b \<notin> p_dt ` set pre"
      unfolding best_funds_def using drop_duplicates_first by blast
    have srt: "sorted (map ?key ?s)" by (rule sorted_sort_key)
    from m have ms: "m \<in> set ?s" by simp
    have "ror_desc (p_ror b) \<le> ror_desc (p_ror m)"
      by (rule first_of_sorted_is_best[OF srt pp ms m(2)])
    moreover from b sub assms m have "p_ror m \<noteq> NaN" "p_ror b \<noteq> NaN" by auto
    ultimately show ?thesis by (simp add: ror_desc_le)
  qed
  have cover: "\<exists>b \<in> set (best_funds ms). p_dt b = p_dt m" if "m \<in> set ms" for m
  proof -
    from that have "m \<in> set ?s" by simp
    from drop_duplicates_covers[OF this, of "[]"] show ?thesis by (simp add: best_funds_def)
  qed
  from d sub best cover show ?thesis by blast
qed

subsection \<open>Rows with a missing key\<close>


lemma to_datetime_filter:
  assumes "to_datetime parse (map g hs) = Inr dts"
  shows "\<exists>dts'. to_datetime parse (map g (filter P hs)) = Inr dts' \<and>
           zip dts' (filter P hs) = filter (\<lambda>x. P (snd x)) (zip dts hs)"
  using assms
proof (induction hs arbitrary: dts)
  case Nil
  then show ?case by simp
next
  case (Cons h hs)
  from Cons.prems obtain d ds
    where d: "to_timestamp parse (g h) = Inr d"
      and ds: "to_datetime parse (map g hs) = Inr ds" and dts: "dts = d # ds"
    by (auto split: sum.splits)
  from Cons.IH[OF ds] obtain ds'
    where ds': "to_datetime parse (map g (filter P hs)) = Inr ds'"
      "zip ds' (filter P hs) = filter (\<lambda>x. P (snd x)) (zip ds hs)" by blast
  show ?case
  proof (cases "P h")
    case True
    with d ds' dts show ?thesis by simp
  next
    case False
    with ds' dts show ?thesis by simp
  qed
qed

lemma map_filter_filter:
  assumes "\<forall>x \<in> set xs. f x \<noteq> None \<longrightarrow> Q x"
  shows "List.map_filter f (filter Q xs) = List.map_filter f xs"
  using assms by (induction xs) (auto simp: List.map_filter_simps split: option.splits)

lemma filter_filter_implied:
  assumes "\<forall>x \<in> set xs. R x \<longrightarrow> Q x"
  shows "filter R (filter Q xs) = filter R xs"
  using assms by (induction xs) auto

lemma groupby_sum_filter:
  assumes "\<forall>x \<in> set df. group_key x \<noteq> None \<longrightarrow> Q x"
  shows "groupby_sum (filter Q df) = groupby_sum df"
proof -
  have keys: "List.map_filter group_key (filter Q df) = List.map_filter group_key df"
    using assms by (rule map_filter_filter)
  have grp: "filter (\<lambda>x. group_key x = Some k) (filter Q df) =
             filter (\<lambda>x. group_key x = Some k) df" for k
  proof (rule filter_filter_implied, intro ballI impI)
    fix x assume x: "x \<in> set df" "group_key x = Some k"
    then have "group_key x \<noteq> None" by simp
    with assms x(1) show "Q x" by blast
  qed
  show ?thesis unfolding groupby_sum_def keys grp ..
qed

lemma monthly_ror_filter:
  assumes "\<forall>x \<in> set df. group_key x \<noteq> None \<longrightarrow> Q x"
  shows "monthly_ror (filter Q df) = monthly_ror df"
  unfolding monthly_ror_def groupby_sum_filter[OF assms] ..

lemma group_key_defined:
  "group_key x \<noteq> None \<Longrightarrow> h_fund_name (snd x) \<noteq> None \<and> h_report_date (snd x) \<noteq> None"
  by (auto simp: group_key_def split: option.splits)

lemma group_key_Some:
  "group_key x = Some k \<Longrightarrow>
     h_fund_name (snd x) = Some (fst k) \<and> fst x = Some (fst (snd k)) \<and>
     h_report_date (snd x) = Some (snd (snd k))"
  by (auto simp: group_key_def split: option.splits)

lemma groupby_sum_keys:
  assumes "a \<in> set (groupby_sum df)"
  shows "\<exists>x \<in> set df. group_key x = Some (a_fund a, a_dt a, a_report_date a)"
proof -
  from assms obtain k where k: "k \<in> set (List.map_filter group_key df)"
    and a: "a_fund a = fst k" "a_dt a = fst (snd k)" "a_report_date a = snd (snd k)"
    by (auto simp: groupby_sum_def)
  from k obtain x where "x \<in> set df" "group_key x = Some k"
    by (auto simp: List.map_filter_def)
  with a show ?thesis by auto
qed

lemma monthly_ror_keys:
  assumes "m \<in> set (monthly_ror df)"
  shows "\<exists>x \<in> set df. group_key x = Some (p_fund m, p_dt m, p_report_date m)"
proof -
  from assms obtain a s
    where as: "(a, s) \<in> set (zip (sort_key (\<lambda>a. (a_fund a, a_dt a)) (groupby_sum df))
                 (shift_by_fund Map.empty (sort_key (\<lambda>a. (a_fund a, a_dt a)) (groupby_sum df))))"
      and m: "m = with_ror (a, s)"
    by (auto simp: monthly_ror_def Let_def)
  from as have "a \<in> set (groupby_sum df)" by (auto dest: set_zip_leftD)
  from groupby_sum_keys[OF this] m show ?thesis by (simp add: with_ror_def)
qed

lemma monthly_returns_filter:
  assumes "monthly_returns parse holdings = Inr monthly"
  shows "monthly_returns parse
           (filter (\<lambda>h. h_fund_name h \<noteq> None \<and> h_report_date h \<noteq> None) holdings) = Inr monthly"
proof -
  let ?P = "\<lambda>h. h_fund_name h \<noteq> None \<and> h_report_date h \<noteq> None"
  from assms obtain dts where dts: "to_datetime parse (map h_report_date holdings) = Inr dts"
    and monthly: "monthly = dropna_ror (monthly_ror (zip dts holdings))"
    by (auto simp: monthly_returns_def split: sum.splits)
  from to_datetime_filter[OF dts, of ?P] obtain dts'
    where dts': "to_datetime parse (map h_report_date (filter ?P holdings)) = Inr dts'"
      "zip dts' (filter ?P holdings) = filter (\<lambda>x. ?P (snd x)) (zip dts holdings)" by blast
  have "\<forall>x \<in> set (zip dts holdings). group_key x \<noteq> None \<longrightarrow> ?P (snd x)"
    using group_key_defined by blast
  then have "monthly_ror (zip dts' (filter ?P holdings)) = monthly_ror (zip dts holdings)"
    unfolding dts'(2) by (rule monthly_ror_filter)
  with dts'(1) monthly show ?thesis by (simp add: monthly_returns_def)
qed

lemma monthly_returns_from_holdings:
  assumes "monthly_returns parse holdings = Inr monthly" and "m \<in> set monthly"
  shows "\<exists>h \<in> set holdings. h_fund_name h = Some (p_fund m) \<and>
           h_report_date h = Some (p_report_date m)"
proof -
  from assms obtain dts where dts: "to_datetime parse (map h_report_date holdings) = Inr dts"
    and monthly: "monthly = dropna_ror (monthly_ror (zip dts holdings))"
    by (auto simp: monthly_returns_def split: sum.splits)
  from assms(2) monthly have "m \<in> set (monthly_ror (zip dts holdings))"
    by (simp add: dropna_ror_def)
  from monthly_ror_keys[OF this] obtain x where x: "x \<in> set (zip dts holdings)"
    "group_key x = Some (p_fund m, p_dt m, p_report_date m)" by blast
  obtain d h where dh: "x = (d, h)" by (cases x)
  with x(1) have "h \<in> set holdings" by (auto dest: set_zip_rightD)
  with dh have "snd x \<in> set holdings" by simp
  with group_key_Some[OF x(2)] show ?thesis by auto
qed

text \<open>
  C7. When the ranked rows exist, the report has at most one row for each period (its
  \<open>dt\<close> values are distinct), each of its rows is one of the ranked rows, the rate of
  return of a row of the report is at least that of every ranked row of the same period,
  and every period that has a ranked row has a row in the report.
\<close>

theorem best_fund_per_period:
  assumes "monthly_returns parse holdings = Inr monthly"
  shows "\<exists>out. generate_performance_report parse holdings = Inr out \<and>
           distinct (map p_dt out) \<and> set out \<subseteq> set monthly \<and>
           (\<forall>b \<in> set out. \<forall>m \<in> set monthly.
              p_dt m = p_dt b \<longrightarrow> fle (p_ror m) (p_ror b)) \<and>
           (\<forall>m \<in> set monthly. \<exists>b \<in> set out. p_dt b = p_dt m)"
proof -
  have nonan: "\<forall>m \<in> set monthly. p_ror m \<noteq> NaN"
    using assms by (auto simp: monthly_returns_def dropna_ror_def split: sum.splits)
  from best_funds_props[OF nonan] assms show ?thesis
    by (simp add: generate_performance_report_def)
qed

theorem best_fund_per_period_witness:
  "monthly_returns example_calendar two_funds = Inr [gohen_feb, magnum_feb] \<and>
   generate_performance_report example_calendar two_funds = Inr [magnum_feb] \<and>
   fle (p_ror gohen_feb) (p_ror magnum_feb)"
proof -
  have h: "monthly_returns example_calendar two_funds = Inr [gohen_feb, magnum_feb]"
    by code_simp
  have out: "generate_performance_report example_calendar two_funds = Inr [magnum_feb]"
    by code_simp
  from best_fund_per_period[OF h] out
  have "\<forall>b \<in> set [magnum_feb]. \<forall>m \<in> set [gohen_feb, magnum_feb].
          p_dt m = p_dt b \<longrightarrow> fle (p_ror m) (p_ror b)"
    by auto
  moreover have "p_dt gohen_feb = p_dt magnum_feb"
    by (simp add: gohen_feb_def magnum_feb_def)
  ultimately have "fle (p_ror gohen_feb) (p_ror magnum_feb)" by simp
  with h out show ?thesis by simp
qed

text \<open>
  C10. When the report is produced, the rows of the store with no fund name or no report
  date change nothing: without them the monthly aggregates with their rates of return
  and the report are the same, and every row of the report carries the fund name and the
  report date of a holding that has both.
\<close>

theorem undefined_rows_excluded:
  assumes "generate_performance_report parse holdings = Inr out"
  shows "monthly_returns parse
           (filter (\<lambda>h. h_fund_name h \<noteq> None \<and> h_report_date h \<noteq> None) holdings)
           = monthly_returns parse holdings \<and>
         generate_performance_report parse
           (filter (\<lambda>h. h_fund_name h \<noteq> None \<and> h_report_date h \<noteq> None) holdings) = Inr out \<and>
         (\<forall>b \<in> set out. \<exists>h \<in> set holdings.
            h_fund_name h = Some (p_fund b) \<and> h_report_date h = Some (p_report_date b))"
proof -
  from assms obtain monthly where monthly: "monthly_returns parse holdings = Inr monthly"
    and out: "out = best_funds monthly"
    by (auto simp: generate_performance_report_def split: sum.splits)
  note filtered = monthly_returns_filter[OF monthly]
  have nonan: "\<forall>m \<in> set monthly. p_ror m \<noteq> NaN"
    using monthly by (auto simp: monthly_returns_def dropna_ror_def split: sum.splits)
  from best_funds_props[OF nonan] out have sub: "set out \<subseteq> set monthly" by simp
  have "\<exists>h \<in> set holdings. h_fund_name h = Some (p_fund b) \<and>
           h_report_date h = Some (p_report_date b)" if "b \<in> set out" for b
    using monthly_returns_from_holdings[OF monthly] that sub by blast
  with filtered monthly out show ?thesis
    by (simp add: generate_performance_report_def)
qed

theorem undefined_rows_excluded_witness:
  "generate_performance_report example_calendar with_undefined = Inr [magnum_feb] \<and>
   filter (\<lambda>h. h_fund_name h \<noteq> None \<and> h_report_date h \<noteq> None) with_undefined = two_funds \<and>
   generate_performance_report example_calendar two_funds = Inr [magnum_feb] \<and>
   monthly_returns example_calendar two_funds = monthly_returns example_calendar with_undefined"
proof -
  have h: "generate_performance_report example_calendar with_undefined = Inr [magnum_feb]"
    by code_simp
  have f: "filter (\<lambda>h. h_fund_name h \<noteq> None \<and> h_report_date h \<noteq> None) with_undefined
             = two_funds"
    by (simp add: with_undefined_def two_funds_def position_def)
  from undefined_rows_excluded[OF h] show ?thesis unfolding f using h by simp
qed

subsection \<open>The periods of one fund\<close>




lemma fdiv_NaN_right [simp]: "fdiv x NaN = NaN"
  by (cases x) simp_all

lemma fadd_NaN_right [simp]: "fadd x NaN = NaN"
  by (cases x) simp_all

lemma ror_of_missing_start: "fdiv (fadd (fsub mv NaN) pl) NaN = NaN"
  by simp













section \<open>Properties of \<open>generate_reconciliation_report\<close>\<close>



lemma no_nulls_None:
  "no_nulls xs = None \<longleftrightarrow> None \<in> fst ` set xs"
  by (induction xs) (auto split: option.splits)










text \<open>
  The report is produced only when every holding has a report date: one holding without
  one makes \<open>merge_asof\<close> raise, and no row is written.
\<close>

lemma reconciliation_missing_date_raises:
  "generate_reconciliation_report example_calendar example_calendar example_calendar
     bond_prices equity_prices
     (priced_holdings @ [position (Some ''Gohen'') None 100 0]) = Inl ValueError"
  by code_simp

end
